theory Spec2Isabelle
  imports Complex_Main "HOL-Library.AList" "HOL-Library.Sublist"
begin

section \<open>The expense tracker of \<^verbatim>\<open>src/app/page.tsx\<close>\<close>

text \<open>
  The page component keeps an expense list and an exchange-rate table in React state,
  appends an expense on every accepted form submission, refreshes the rate table from a
  remote service, and derives per-category sums and a grand total from the two.
  This theory embeds the state, the handlers and the two derived values as HOL functions
  and proves the properties the specification states about them.
\<close>

subsection \<open>JavaScript numbers\<close>

text \<open>
  A value of the TypeScript type \<^verbatim>\<open>number\<close> is a finite number, one of the two
  infinities, or \<^verbatim>\<open>NaN\<close>. Finite values are modelled by exact rationals: the
  rounding of every operation to 53 bits of precision, overflow of a finite result to
  an infinity, and the sign of zero are outside this model. Division by zero, the
  arithmetic of the infinities and the propagation of \<^verbatim>\<open>NaN\<close> follow IEEE 754, as
  JavaScript does.
\<close>

datatype number = Finite rat | Infinity | NegInfinity | NaN

fun isNaN :: "number \<Rightarrow> bool" where
  "isNaN NaN = True"
| "isNaN _ = False"

fun isFinite :: "number \<Rightarrow> bool" where
  "isFinite (Finite _) = True"
| "isFinite _ = False"

text \<open>The operator \<^verbatim>\<open>+\<close> on numbers.\<close>

fun add :: "number \<Rightarrow> number \<Rightarrow> number" where
  "add NaN _ = NaN"
| "add _ NaN = NaN"
| "add (Finite a) (Finite b) = Finite (a + b)"
| "add Infinity NegInfinity = NaN"
| "add NegInfinity Infinity = NaN"
| "add Infinity _ = Infinity"
| "add _ Infinity = Infinity"
| "add NegInfinity _ = NegInfinity"
| "add _ NegInfinity = NegInfinity"

text \<open>The operator \<^verbatim>\<open>*\<close> on numbers: an infinity times zero is \<^verbatim>\<open>NaN\<close>.\<close>

fun signed_infinity :: "bool \<Rightarrow> number" where
  "signed_infinity True = Infinity"
| "signed_infinity False = NegInfinity"

fun mul :: "number \<Rightarrow> number \<Rightarrow> number" where
  "mul NaN _ = NaN"
| "mul _ NaN = NaN"
| "mul (Finite a) (Finite b) = Finite (a * b)"
| "mul Infinity (Finite b) = (if b = 0 then NaN else signed_infinity (0 < b))"
| "mul NegInfinity (Finite b) = (if b = 0 then NaN else signed_infinity (b < 0))"
| "mul (Finite a) Infinity = (if a = 0 then NaN else signed_infinity (0 < a))"
| "mul (Finite a) NegInfinity = (if a = 0 then NaN else signed_infinity (a < 0))"
| "mul Infinity Infinity = Infinity"
| "mul NegInfinity NegInfinity = Infinity"
| "mul Infinity NegInfinity = NegInfinity"
| "mul NegInfinity Infinity = NegInfinity"

text \<open>
  The operator \<^verbatim>\<open>/\<close> on numbers: a nonzero finite number over zero is an infinity
  of the dividend's sign (the zero counts as positive), zero over zero is \<^verbatim>\<open>NaN\<close>.
\<close>

fun quot :: "number \<Rightarrow> number \<Rightarrow> number" where
  "quot NaN _ = NaN"
| "quot _ NaN = NaN"
| "quot (Finite a) (Finite b) =
     (if b = 0 then (if a = 0 then NaN else signed_infinity (0 < a)) else Finite (a / b))"
| "quot (Finite a) _ = Finite 0"
| "quot Infinity (Finite b) = signed_infinity (0 \<le> b)"
| "quot NegInfinity (Finite b) = signed_infinity (b < 0)"
| "quot _ _ = NaN"

text \<open>
  The operators are written \<open>+\<close>, \<open>*\<close> and \<open>/\<close> from here on. Addition is
  associative and commutative with zero as its unit, so the order in which a sum is
  accumulated does not matter in this model.
\<close>

instantiation number :: "{comm_monoid_add, times, inverse}"
begin

definition zero_number :: number where
  "zero_number = Finite 0"

definition plus_number :: "number \<Rightarrow> number \<Rightarrow> number" where
  "plus_number x y = add x y"

definition times_number :: "number \<Rightarrow> number \<Rightarrow> number" where
  "times_number x y = mul x y"

definition divide_number :: "number \<Rightarrow> number \<Rightarrow> number" where
  "divide_number x y = quot x y"

definition inverse_number :: "number \<Rightarrow> number" where
  "inverse_number x = quot (Finite 1) x"

instance
proof
  fix a b c :: number
  show "a + b + c = a + (b + c)"
    by (cases a; cases b; cases c) (simp_all add: plus_number_def)
  show "a + b = b + a"
    by (cases a; cases b) (simp_all add: plus_number_def)
  show "0 + a = a"
    by (cases a) (simp_all add: plus_number_def zero_number_def)
qed

end

text \<open>
  \<^verbatim>\<open>Math.round\<close>: the nearest integer, a tie going up (towards positive infinity);
  the infinities and \<^verbatim>\<open>NaN\<close> are returned as they are.
\<close>

fun Math_round :: "number \<Rightarrow> number" where
  "Math_round (Finite q) = Finite (of_int \<lfloor>q + 1 / 2\<rfloor>)"
| "Math_round x = x"

subsection \<open>\<^verbatim>\<open>Number.parseFloat\<close>\<close>

text \<open>
  \<^verbatim>\<open>Number.parseFloat\<close> skips leading white space and reads the longest prefix of
  the rest that is a decimal literal: an optional sign, then either the word
  \<^verbatim>\<open>Infinity\<close> or digits with an optional fraction and an optional exponent. Whatever
  follows the literal is ignored; with no such prefix the result is \<^verbatim>\<open>NaN\<close>.
  A text is a list of code units below 256, so the white space that can occur is the
  ASCII white space and the no-break space.
\<close>

definition isWhiteSpace :: "char \<Rightarrow> bool" where
  "isWhiteSpace c =
     (c \<in> set [CHR 0x09, CHR 0x0A, CHR 0x0B, CHR 0x0C, CHR 0x0D, CHR '' '', CHR 0xA0])"

definition isDigit :: "char \<Rightarrow> bool" where
  "isDigit c = (c \<in> set ''0123456789'')"

definition digitValue :: "char \<Rightarrow> nat" where
  "digitValue c = of_char c - 48"

definition digitsValue :: "string \<Rightarrow> nat" where
  "digitsValue ds = foldl (\<lambda>n c. 10 * n + digitValue c) 0 ds"

text \<open>An exponent part: \<^verbatim>\<open>e\<close> or \<^verbatim>\<open>E\<close>, an optional sign and at least one digit;
  anything else is no exponent.\<close>

definition exponentPart :: "string \<Rightarrow> int" where
  "exponentPart s =
     (case s of
        [] \<Rightarrow> 0
      | e # r \<Rightarrow>
          if e = CHR ''e'' \<or> e = CHR ''E'' then
            (case r of
               [] \<Rightarrow> 0
             | sg # r' \<Rightarrow>
                 if sg = CHR ''-'' then - int (digitsValue (takeWhile isDigit r'))
                 else if sg = CHR ''+'' then int (digitsValue (takeWhile isDigit r'))
                 else int (digitsValue (takeWhile isDigit r)))
          else 0)"

definition scale :: "rat \<Rightarrow> int \<Rightarrow> rat" where
  "scale m e = (if 0 \<le> e then m * 10 ^ nat e else m / 10 ^ nat (- e))"

text \<open>
  The number that a literal of the exact value \<open>v\<close> is read as. The largest double is
  \<open>2^1024 - 2^971\<close> and the smallest positive one \<open>2^-1074\<close>; rounding to the nearest
  double, a tie going to the even one, gives an infinity from \<open>2^1024 - 2^970\<close> on and
  zero up to \<open>2^-1075\<close>. In between, the exact value is kept: the rounding to 53 bits is
  outside this model.
\<close>

definition literalValue :: "rat \<Rightarrow> number" where
  "literalValue v =
     (if 2 ^ 1024 - 2 ^ 970 \<le> \<bar>v\<bar> then signed_infinity (0 < v)
      else if \<bar>v\<bar> \<le> 1 / 2 ^ 1075 then Finite 0
      else Finite v)"

text \<open>An unsigned literal; \<open>None\<close> when the text does not start with one.\<close>

definition unsignedLiteral :: "string \<Rightarrow> number option" where
  "unsignedLiteral s =
     (if take 8 s = ''Infinity'' then Some Infinity
      else
        let ip = takeWhile isDigit s; r1 = dropWhile isDigit s in
        (case r1 of
           CHR ''.'' # r2 \<Rightarrow>
             let fp = takeWhile isDigit r2; r3 = dropWhile isDigit r2 in
             if ip = [] \<and> fp = [] then None
             else Some (literalValue (scale (of_nat (digitsValue (ip @ fp)))
                                        (exponentPart r3 - int (length fp))))
         | _ \<Rightarrow>
             if ip = [] then None
             else Some (literalValue (scale (of_nat (digitsValue ip)) (exponentPart r1)))))"

fun negate :: "number \<Rightarrow> number" where
  "negate (Finite q) = Finite (- q)"
| "negate Infinity = NegInfinity"
| "negate NegInfinity = Infinity"
| "negate NaN = NaN"

definition parseFloat :: "string \<Rightarrow> number" where
  "parseFloat inputString =
     (let trimmed = dropWhile isWhiteSpace inputString in
      case trimmed of
        [] \<Rightarrow> NaN
      | c # r \<Rightarrow>
          if c = CHR ''-'' then (case unsignedLiteral r of None \<Rightarrow> NaN | Some v \<Rightarrow> negate v)
          else if c = CHR ''+'' then (case unsignedLiteral r of None \<Rightarrow> NaN | Some v \<Rightarrow> v)
          else (case unsignedLiteral trimmed of None \<Rightarrow> NaN | Some v \<Rightarrow> v))"

subsection \<open>The amount field\<close>



subsection \<open>Currencies, expenses, rates\<close>

datatype Currency = EUR | USD | VND

record Expense =
  id' :: int
  amount :: number
  currency :: Currency
  category :: string
  description :: string

text \<open>
  \<^verbatim>\<open>ExchangeRates\<close> and \<^verbatim>\<open>CategorySum\<close> are objects with one numeric property per
  currency, read and written through a key of type \<^verbatim>\<open>Currency\<close>
  (\<^verbatim>\<open>exchangeRates[fromCurrency]\<close>, \<^verbatim>\<open>sums[expense.category][expense.currency]\<close>):
  functions from the three keys to numbers. The intersection with \<^verbatim>\<open>{ VND: number }\<close>
  in the declaration of \<^verbatim>\<open>CategorySum\<close> names a property the mapped type already has,
  so it adds no fourth one.
\<close>

type_synonym ExchangeRates = "Currency \<Rightarrow> number"

type_synonym CategorySum = "Currency \<Rightarrow> number"

definition categories :: "string list" where
  "categories =
     [''Eating in the restaurant'', ''Supermarket for food'', ''Groceries'', ''Furniture'',
      ''Other'']"

text \<open>The object literal \<^verbatim>\<open>{ EUR: e, USD: u, VND: v }\<close>.\<close>

fun object :: "number \<Rightarrow> number \<Rightarrow> number \<Rightarrow> Currency \<Rightarrow> number" where
  "object e u v EUR = e"
| "object e u v USD = u"
| "object e u v VND = v"

subsection \<open>Conversion\<close>

text \<open>
  Both functions read the rate table of the component's state; here it is the first
  argument.
\<close>

definition convertToVND :: "ExchangeRates \<Rightarrow> number \<Rightarrow> Currency \<Rightarrow> number" where
  "convertToVND rates amt fromCurrency =
     (let euroAmount =
        (if fromCurrency = EUR then amt else amt / rates fromCurrency)
      in Math_round (euroAmount * rates VND))"

definition convertToEUR :: "ExchangeRates \<Rightarrow> number \<Rightarrow> Currency \<Rightarrow> number" where
  "convertToEUR rates amt fromCurrency =
     (if fromCurrency = EUR then amt else amt / rates fromCurrency)"

subsection \<open>Aggregation\<close>

text \<open>
  \<^verbatim>\<open>sums\<close> is an object keyed by category. Its properties are kept in the order in
  which they were created, which is the order \<^verbatim>\<open>Object.values\<close> lists them in: an
  association list, a new key going to the end. (The categories of the form are not
  integer-like strings, which JavaScript would list first, nor names of properties that
  every object inherits.)
\<close>

type_synonym CategorySums = "(string \<times> CategorySum) list"

text \<open>The body of the \<^verbatim>\<open>forEach\<close> of \<^verbatim>\<open>categorySums\<close>, for one expense.\<close>

definition addExpense :: "ExchangeRates \<Rightarrow> CategorySums \<Rightarrow> Expense \<Rightarrow> CategorySums" where
  "addExpense rates csums expense =
     (let csums1 =
        (if map_of csums (category expense) = None
         then AList.update (category expense) (object 0 0 0) csums
         else csums);
      csums2 =
        AList.map_entry (category expense)
          (\<lambda>s. s(currency expense := s (currency expense) + amount expense)) csums1;
      csums3 =
        AList.map_entry (category expense)
          (\<lambda>s. s(VND := s VND + convertToVND rates (amount expense) (currency expense)))
          csums2
      in csums3)"

definition categorySums :: "ExchangeRates \<Rightarrow> Expense list \<Rightarrow> CategorySums" where
  "categorySums rates es = foldl (addExpense rates) [] es"

text \<open>The body of the \<^verbatim>\<open>forEach\<close> of \<^verbatim>\<open>totalSum\<close>, for one category's sums.\<close>

definition addCategorySum :: "CategorySum \<Rightarrow> CategorySum \<Rightarrow> CategorySum" where
  "addCategorySum tot categorySum =
     (let tot1 = tot(EUR := tot EUR + categorySum EUR);
          tot2 = tot1(USD := tot1 USD + categorySum USD);
          tot3 = tot2(VND := tot2 VND + categorySum VND)
      in tot3)"

definition totalSum :: "CategorySums \<Rightarrow> CategorySum" where
  "totalSum csums =
     foldl addCategorySum (object 0 0 0) (map snd csums)"

text \<open>The numeric property \<open>k\<close> of category \<open>c\<close>'s sums; zero while the category has none.\<close>

definition lookupSum :: "CategorySums \<Rightarrow> string \<Rightarrow> Currency \<Rightarrow> number" where
  "lookupSum csums c k = (case map_of csums c of None \<Rightarrow> 0 | Some s \<Rightarrow> s k)"

subsection \<open>The component's state and its handlers\<close>

text \<open>
  The state variables of \<^verbatim>\<open>Home\<close>, with the notifications shown so far. The four
  variables of the form are primed: \<open>amount'\<close> is the text of the amount field, while
  \<open>amount\<close> is the number an expense holds.
\<close>

datatype toast = Toast_error string | Toast_success string

record State =
  expenses :: "Expense list"
  amount' :: string
  currency' :: Currency
  category' :: string
  description' :: string
  exchangeRates :: ExchangeRates
  isLoading :: bool
  toasts :: "toast list"

definition initialState :: State where
  "initialState =
     \<lparr>expenses = [], amount' = [], currency' = EUR, category' = categories ! 0,
      description' = [], exchangeRates = object (Finite 1) (Finite 1) (Finite 1),
      isLoading = False, toasts = []\<rparr>"

text \<open>\<^verbatim>\<open>handleSubmit\<close>; \<open>now\<close> is what \<^verbatim>\<open>Date.now()\<close> returns.\<close>

definition handleSubmit :: "int \<Rightarrow> State \<Rightarrow> State" where
  "handleSubmit now st =
     (if amount' st = [] \<or> isNaN (parseFloat (amount' st))
      then st\<lparr>toasts := toasts st @ [Toast_error ''Please enter a valid amount'']\<rparr>
      else
        let newExpense =
          \<lparr>id' = now, amount = parseFloat (amount' st), currency = currency' st,
           category = category' st, description = description' st\<rparr>
        in st\<lparr>expenses := expenses st @ [newExpense], amount' := [], description' := [],
              toasts := toasts st @ [Toast_success ''Expense added successfully!'']\<rparr>)"

text \<open>
  What one run of \<^verbatim>\<open>fetchExchangeRates\<close> meets: the request fails, the body is not
  JSON, the JSON has no \<^verbatim>\<open>rates\<close> member (reading \<^verbatim>\<open>data.rates.USD\<close> throws), or it
  has one, with the two numbers read from it.
\<close>

datatype response = NetworkError | ParseError | NoRates | Rates number number

text \<open>
  \<^verbatim>\<open>fetchExchangeRates\<close> in its two parts: up to the first \<^verbatim>\<open>await\<close>, and from the
  response to the end of the \<^verbatim>\<open>finally\<close> block.
\<close>

definition fetchExchangeRates_start :: "State \<Rightarrow> State" where
  "fetchExchangeRates_start st = st\<lparr>isLoading := True\<rparr>"

definition fetchExchangeRates_settle :: "response \<Rightarrow> State \<Rightarrow> State" where
  "fetchExchangeRates_settle r st =
     (case r of
        Rates usd vnd \<Rightarrow>
          st\<lparr>exchangeRates := object (Finite 1) usd vnd, isLoading := False\<rparr>
      | _ \<Rightarrow>
          st\<lparr>toasts := toasts st @
                 [Toast_error ''Failed to fetch exchange rates. Using default values.''],
             isLoading := False\<rparr>)"

text \<open>Everything that changes the state: the form's inputs, a submission, a fetch.\<close>

datatype event =
    SetAmount string
  | SetCurrency Currency
  | SetCategory string
  | SetDescription string
  | Submit int
  | FetchStart
  | FetchSettle response

fun step :: "State \<Rightarrow> event \<Rightarrow> State" where
  "step st (SetAmount s) = st\<lparr>amount' := s\<rparr>"
| "step st (SetCurrency c) = st\<lparr>currency' := c\<rparr>"
| "step st (SetCategory s) = st\<lparr>category' := s\<rparr>"
| "step st (SetDescription s) = st\<lparr>description' := s\<rparr>"
| "step st (Submit now) = handleSubmit now st"
| "step st FetchStart = fetchExchangeRates_start st"
| "step st (FetchSettle r) = fetchExchangeRates_settle r st"

definition run :: "State \<Rightarrow> event list \<Rightarrow> State" where
  "run st evs = foldl step st evs"

subsection \<open>Auxiliary notions\<close>

text \<open>
  What one expense adds to the property \<open>k\<close> of its category's sums, over the two
  assignments of the loop body together.
\<close>

definition contribution :: "ExchangeRates \<Rightarrow> Expense \<Rightarrow> Currency \<Rightarrow> number" where
  "contribution rates e k =
     (if currency e = k then amount e else 0) +
     (if k = VND then convertToVND rates (amount e) (currency e) else 0)"

text \<open>
  The table the specification expects after a sequence of events: that of the last fetch
  among them that succeeded, and the table \<open>t\<close> held before them when none did.
\<close>

fun lastFetched :: "ExchangeRates \<Rightarrow> event list \<Rightarrow> ExchangeRates" where
  "lastFetched t [] = t"
| "lastFetched t (FetchSettle (Rates usd vnd) # evs) =
     lastFetched (object (Finite 1) usd vnd) evs"
| "lastFetched t (_ # evs) = lastFetched t evs"

section \<open>Evaluation\<close>

lemma floor_rat_numeral [simp]:
  "\<lfloor>(numeral a :: rat) / numeral b\<rfloor> = numeral a div numeral b"
  using floor_divide_of_int_eq [of "numeral a" "numeral b", where ?'a = rat] by simp

lemma floor_rat_neg_numeral [simp]:
  "\<lfloor>- (numeral a :: rat) / numeral b\<rfloor> = - numeral a div numeral b"
  using floor_divide_of_int_eq [of "- numeral a" "numeral b", where ?'a = rat] by simp

lemmas number_ops = plus_number_def times_number_def divide_number_def zero_number_def

lemmas parse_defs = parseFloat_def unsignedLiteral_def isWhiteSpace_def isDigit_def
  digitsValue_def digitValue_def exponentPart_def scale_def literalValue_def

lemma parseFloat_empty: "parseFloat [] = NaN"
  by (simp add: parseFloat_def)

section \<open>Conversion\<close>




section \<open>Aggregation\<close>

subsection \<open>The sums of one category\<close>

lemma lookupSum_addExpense:
  "lookupSum (addExpense rates cs e) c k =
     lookupSum cs c k + (if category e = c then contribution rates e k else 0)"
  by (cases k; cases "currency e")
    (auto simp add: lookupSum_def addExpense_def Let_def map_of_map_entry update_conv'
      contribution_def add.assoc split: option.splits)

lemma lookupSum_foldl:
  "lookupSum (foldl (addExpense rates) cs es) c k =
     lookupSum cs c k + (\<Sum>e\<leftarrow>filter (\<lambda>e. category e = c) es. contribution rates e k)"
  by (induction es arbitrary: cs) (simp_all add: lookupSum_addExpense add.assoc)

lemma lookupSum_categorySums:
  "lookupSum (categorySums rates es) c k =
     (\<Sum>e\<leftarrow>filter (\<lambda>e. category e = c) es. contribution rates e k)"
  unfolding categorySums_def lookupSum_foldl by (simp add: lookupSum_def)



text \<open>
  Claim C1. The specification has the VND property of every category equal to the sum
  of the conversions of the category's expenses. For an expense entered in VND the
  property holds the amount a second time: with the rates 1, 2 and 25000, one expense of
  50000 VND converts to 50000, and its category's VND property is 100000.
\<close>

theorem VND_expense_counted_twice:
  "let rates = object (Finite 1) (Finite 2) (Finite 25000);
       es = [\<lparr>id' = 0, amount = Finite 50000, currency = VND, category = ''Other'',
              description = []\<rparr>]
   in (\<Sum>e\<leftarrow>filter (\<lambda>e. category e = ''Other'') es.
         convertToVND rates (amount e) (currency e)) = Finite 50000 \<and>
      lookupSum (categorySums rates es) ''Other'' VND = Finite 100000"
  by (simp add: categorySums_def addExpense_def lookupSum_def convertToVND_def number_ops)

subsection \<open>The grand total\<close>

lemma addCategorySum_apply: "addCategorySum t s k = t k + s k"
  by (cases k) (simp_all add: addCategorySum_def)

lemma foldl_addCategorySum:
  "foldl addCategorySum t ss k = t k + (\<Sum>s\<leftarrow>ss. s k)"
  by (induction ss arbitrary: t) (simp_all add: addCategorySum_apply add.assoc)

lemma object_zero: "object 0 0 0 k = 0"
  by (cases k) simp_all

lemma totalSum_sum: "totalSum cs k = (\<Sum>p\<leftarrow>cs. snd p k)"
  by (simp add: totalSum_def foldl_addCategorySum object_zero comp_def)


lemma keys_addExpense:
  "map fst (addExpense rates cs e) =
     (if category e \<in> fst ` set cs then map fst cs else map fst cs @ [category e])"
proof -
  have keys: "map fst (AList.map_entry k f xs) = map fst xs" for k and f :: "CategorySum \<Rightarrow> CategorySum" and xs
    by (induction xs) auto
  show ?thesis
    by (auto simp add: addExpense_def Let_def keys update_keys map_of_eq_None_iff)
qed

lemma keys_foldl_addExpense:
  "distinct (map fst cs) \<Longrightarrow>
     distinct (map fst (foldl (addExpense rates) cs es)) \<and>
     fst ` set (foldl (addExpense rates) cs es) = fst ` set cs \<union> category ` set es"
proof (induction es arbitrary: cs)
  case Nil
  then show ?case by simp
next
  case (Cons e es)
  have d: "distinct (map fst (addExpense rates cs e))"
    using Cons.prems by (simp add: keys_addExpense)
  have s: "fst ` set (addExpense rates cs e) = insert (category e) (fst ` set cs)"
    using keys_addExpense [of rates cs e, THEN arg_cong, of set] by (auto split: if_splits)
  show ?case
    using Cons.IH [OF d] s by auto
qed

lemma keys_categorySums:
  "distinct (map fst (categorySums rates es))"
  "fst ` set (categorySums rates es) = category ` set es"
  using keys_foldl_addExpense [of "[]" rates es] by (simp_all add: categorySums_def)

lemma sum_list_lookup:
  "distinct (map fst cs) \<Longrightarrow> (\<Sum>p\<leftarrow>cs. snd p k) = (\<Sum>c\<leftarrow>map fst cs. lookupSum cs c k)"
proof -
  assume d: "distinct (map fst cs)"
  have "map (\<lambda>p. snd p k) cs = map (\<lambda>p. lookupSum cs (fst p) k) cs"
  proof (rule map_cong [OF refl])
    fix p assume "p \<in> set cs"
    then have "map_of cs (fst p) = Some (snd p)"
      using d by (metis map_of_is_SomeI prod.collapse)
    then show "snd p k = lookupSum cs (fst p) k"
      by (simp add: lookupSum_def)
  qed
  then have "sum_list (map (\<lambda>p. snd p k) cs) = sum_list (map (\<lambda>p. lookupSum cs (fst p) k) cs)"
    by (rule arg_cong)
  then show ?thesis by (simp add: comp_def)
qed

lemma sum_list_single:
  "distinct ks \<Longrightarrow> (\<Sum>c\<leftarrow>ks. if k = c then v else 0) = (if k \<in> set ks then v else (0::number))"
  by (induction ks) auto

lemma sum_list_regroup:
  fixes f :: "Expense \<Rightarrow> number"
  assumes "distinct ks" and "category ` set es \<subseteq> set ks"
  shows "(\<Sum>c\<leftarrow>ks. \<Sum>e\<leftarrow>filter (\<lambda>e. category e = c) es. f e) = (\<Sum>e\<leftarrow>es. f e)"
  using assms(2)
proof (induction es)
  case Nil
  then show ?case by simp
next
  case (Cons e es)
  have "(\<Sum>c\<leftarrow>ks. \<Sum>x\<leftarrow>filter (\<lambda>x. category x = c) (e # es). f x) =
        (\<Sum>c\<leftarrow>ks. (if category e = c then f e else 0) + (\<Sum>x\<leftarrow>filter (\<lambda>x. category x = c) es. f x))"
    by (rule arg_cong [where f = sum_list], rule map_cong) auto
  also have "\<dots> = (\<Sum>c\<leftarrow>ks. if category e = c then f e else 0) + (\<Sum>c\<leftarrow>ks. \<Sum>x\<leftarrow>filter (\<lambda>x. category x = c) es. f x)"
    by (simp add: sum_list_addf)
  also have "\<dots> = f e + (\<Sum>x\<leftarrow>es. f x)"
    using Cons assms(1) by (simp add: sum_list_single)
  finally show ?case by simp
qed

lemma totalSum_categorySums:
  "totalSum (categorySums rates es) k = (\<Sum>e\<leftarrow>es. contribution rates e k)"
proof -
  let ?cs = "categorySums rates es"
  have "totalSum ?cs k = (\<Sum>c\<leftarrow>map fst ?cs. lookupSum ?cs c k)"
    by (simp add: totalSum_sum sum_list_lookup keys_categorySums(1))
  also have "\<dots> = (\<Sum>c\<leftarrow>map fst ?cs. \<Sum>e\<leftarrow>filter (\<lambda>e. category e = c) es. contribution rates e k)"
    by (simp add: lookupSum_categorySums)
  also have "\<dots> = (\<Sum>e\<leftarrow>es. contribution rates e k)"
    by (rule sum_list_regroup) (simp_all add: keys_categorySums)
  finally show ?thesis .
qed

text \<open>
  Claim C4. Each category has one entry in the sums, and each of the three properties
  of the grand total is the sum of that property over the entries; so the VND property
  of the grand total is the sum of the categories' VND properties.
\<close>

theorem totalSum_fieldwise:
  "distinct (map fst (categorySums rates es)) \<and>
   totalSum (categorySums rates es) EUR = (\<Sum>p\<leftarrow>categorySums rates es. snd p EUR) \<and>
   totalSum (categorySums rates es) USD = (\<Sum>p\<leftarrow>categorySums rates es. snd p USD) \<and>
   totalSum (categorySums rates es) VND = (\<Sum>p\<leftarrow>categorySums rates es. snd p VND)"
  by (simp add: totalSum_sum keys_categorySums(1))

text \<open>
  Claim C9. With the rates 1, 2 and 25000, an expense of 10 EUR converts to 250000 and
  one of 5 USD to 62500; the sums keep 10 under EUR and 5 under USD, whatever the two
  categories are, and the VND property of the grand total is 312500.
\<close>

theorem scenario:
  "let rates = object (Finite 1) (Finite 2) (Finite 25000);
       es = [\<lparr>id' = i1, amount = Finite 10, currency = EUR, category = c1, description = d1\<rparr>,
             \<lparr>id' = i2, amount = Finite 5, currency = USD, category = c2, description = d2\<rparr>];
       csums = categorySums rates es
   in convertToVND rates (Finite 10) EUR = Finite 250000 \<and>
      convertToVND rates (Finite 5) USD = Finite 62500 \<and>
      lookupSum csums c1 EUR = Finite 10 \<and>
      lookupSum csums c2 USD = Finite 5 \<and>
      totalSum csums EUR = Finite 10 \<and>
      totalSum csums USD = Finite 5 \<and>
      totalSum csums VND = Finite 312500"
  by (cases "c1 = c2")
    (simp_all add: totalSum_def categorySums_def addExpense_def convertToVND_def
      addCategorySum_def lookupSum_def number_ops)

subsection \<open>Rounding each conversion or the sum\<close>

lemma round_finite_sums:
  "list_all isFinite xs \<Longrightarrow>
     \<exists>z s. sum_list (map Math_round xs) = Finite (of_int z) \<and> sum_list xs = Finite s \<and>
       2 * of_int z - 2 * s \<le> of_nat (length xs) \<and>
       - of_nat (length xs) \<le> 2 * of_int z - 2 * s \<and>
       (xs \<noteq> [] \<longrightarrow> - of_nat (length xs) < 2 * of_int z - 2 * s)"
proof (induction xs)
  case Nil
  show ?case by (simp add: zero_number_def)
next
  case (Cons x xs)
  from Cons.prems obtain q where x: "x = Finite q" by (cases x) simp_all
  from Cons obtain z s where
    zs: "sum_list (map Math_round xs) = Finite (of_int z)" "sum_list xs = Finite s"
      "2 * of_int z - 2 * s \<le> of_nat (length xs)" "- of_nat (length xs) \<le> 2 * of_int z - 2 * s"
    by auto
  define r where "r = \<lfloor>q + 1 / 2\<rfloor>"
  have f1: "of_int r \<le> q + 1 / 2"
    unfolding r_def by (rule of_int_floor_le)
  have f2: "q + 1 / 2 < of_int r + 1"
    unfolding r_def by (rule floor_correct [THEN conjunct2, simplified])
  have "sum_list (map Math_round (x # xs)) = Finite (of_int (r + z))"
    by (simp add: x zs plus_number_def r_def)
  moreover have "sum_list (x # xs) = Finite (q + s)"
    by (simp add: x zs plus_number_def)
  moreover have "2 * of_int (r + z) - 2 * (q + s) \<le> of_nat (length (x # xs))"
    using f1 zs(3) by simp
  moreover have "- of_nat (length (x # xs)) < 2 * of_int (r + z) - 2 * (q + s)"
    using f2 zs(4) by simp
  ultimately show ?case
    by (intro exI [of _ "r + z"] exI [of _ "q + s"]) simp
qed

lemma add_not_finite:
  "\<not> isFinite s \<Longrightarrow> Math_round x + s = x + s \<and> \<not> isFinite (x + s)"
  by (cases x; cases s) (simp_all add: plus_number_def)

lemma add_finite_sum:
  "\<not> isFinite x \<Longrightarrow> x + Finite a = x \<and> Math_round x = x"
  by (cases x) (simp_all add: plus_number_def)

lemma round_other_sums:
  "\<not> list_all isFinite xs \<Longrightarrow>
     sum_list (map Math_round xs) = sum_list xs \<and> \<not> isFinite (sum_list xs)"
proof (induction xs)
  case Nil
  then show ?case by simp
next
  case (Cons x xs)
  show ?case
  proof (cases "list_all isFinite xs")
    case True
    with Cons.prems have nf: "\<not> isFinite x" by simp
    from round_finite_sums [OF True] obtain z s where
      "sum_list (map Math_round xs) = Finite (of_int z)" "sum_list xs = Finite s" by blast
    then show ?thesis using add_finite_sum [OF nf] nf by simp
  next
    case False
    from Cons.IH [OF False] show ?thesis
      using add_not_finite [of "sum_list xs" x] by simp
  qed
qed

lemma round_not_finite: "\<not> isFinite x \<Longrightarrow> Math_round x = x"
  by (cases x) simp_all

lemma rounding_numbers:
  "sum_list (map Math_round xs) = Math_round (sum_list xs) \<or>
   (\<exists>a b. sum_list (map Math_round xs) = Finite a \<and> Math_round (sum_list xs) = Finite b \<and>
      \<bar>a - b\<bar> \<le> of_nat (length xs) / 2)"
proof (cases "list_all isFinite xs")
  case False
  then show ?thesis
    using round_other_sums [OF False] by (simp add: round_not_finite)
next
  case True
  from round_finite_sums [OF True] obtain z s where
    zs: "sum_list (map Math_round xs) = Finite (of_int z)" "sum_list xs = Finite s"
      "2 * of_int z - 2 * s \<le> of_nat (length xs)" "- of_nat (length xs) \<le> 2 * of_int z - 2 * s"
      "xs \<noteq> [] \<longrightarrow> - of_nat (length xs) < 2 * of_int z - 2 * s"
    by blast
  define b where "b = \<lfloor>s + 1 / 2\<rfloor>"
  let ?n = "int (length xs)"
  have f1: "of_int b \<le> s + 1 / 2"
    unfolding b_def by (rule of_int_floor_le)
  have f2: "s + 1 / 2 < of_int b + 1"
    unfolding b_def by (rule floor_correct [THEN conjunct2, simplified])
  have up: "2 * (z - b) \<le> ?n"
  proof -
    have "2 * (of_int z :: rat) - 2 * of_int b < of_nat (length xs) + 1"
      using zs(3) f2 by linarith
    then have "(of_int (2 * (z - b)) :: rat) < of_int (?n + 1)"
      by simp
    then have "2 * (z - b) < ?n + 1" by (simp only: of_int_less_iff)
    then show ?thesis by simp
  qed
  have lo: "- ?n \<le> 2 * (z - b)"
  proof (cases "xs = []")
    case True
    then have "s = 0" "z = 0" using zs(1,2) by (simp_all add: zero_number_def)
    then show ?thesis using True by (simp add: b_def)
  next
    case False
    then have "- of_nat (length xs) - 1 < 2 * (of_int z :: rat) - 2 * of_int b"
      using zs(5) f1 by linarith
    then have "(of_int (- ?n - 1) :: rat) < of_int (2 * (z - b))"
      by simp
    then have "- ?n - 1 < 2 * (z - b)" by (simp only: of_int_less_iff)
    then show ?thesis by simp
  qed
  have "(of_int (2 * (z - b)) :: rat) \<le> of_int ?n" "(of_int (- ?n) :: rat) \<le> of_int (2 * (z - b))"
    using up lo by (simp_all only: of_int_le_iff)
  then have "2 * (of_int z :: rat) - 2 * of_int b \<le> of_nat (length xs)"
    "- of_nat (length xs) \<le> 2 * (of_int z :: rat) - 2 * of_int b"
    by simp_all
  then have "\<bar>(of_int z :: rat) - of_int b\<bar> \<le> of_nat (length xs) / 2"
    by linarith
  then show ?thesis
    using zs(1,2) by (simp add: b_def)
qed

text \<open>
  The sum of the rounded conversions against the rounded sum of the conversions before
  rounding: both are the same infinity or both \<^verbatim>\<open>NaN\<close>, or both are finite and differ
  by at most half the number of expenses. Without an expense entered in VND the first is
  the VND property of the grand total.
\<close>

lemma convertToVND_rounds:
  "convertToVND rates a c = Math_round (convertToEUR rates a c * rates VND)"
  by (simp add: convertToVND_def convertToEUR_def)

lemma rounding_conversions:
  "(\<Sum>e\<leftarrow>es. convertToVND rates (amount e) (currency e)) =
     Math_round (\<Sum>e\<leftarrow>es. convertToEUR rates (amount e) (currency e) * rates VND) \<or>
   (\<exists>a b. (\<Sum>e\<leftarrow>es. convertToVND rates (amount e) (currency e)) = Finite a \<and>
      Math_round (\<Sum>e\<leftarrow>es. convertToEUR rates (amount e) (currency e) * rates VND) =
        Finite b \<and>
      \<bar>a - b\<bar> \<le> of_nat (length es) / 2)"
  using rounding_numbers
    [of "map (\<lambda>e. convertToEUR rates (amount e) (currency e) * rates VND) es"]
  by (simp add: convertToVND_rounds comp_def)

lemma totalSum_without_VND:
  "list_all (\<lambda>e. currency e \<noteq> VND) es \<Longrightarrow>
     totalSum (categorySums rates es) VND =
       (\<Sum>e\<leftarrow>es. convertToVND rates (amount e) (currency e))"
proof -
  assume "list_all (\<lambda>e. currency e \<noteq> VND) es"
  then have "map (\<lambda>e. contribution rates e VND) es =
             map (\<lambda>e. convertToVND rates (amount e) (currency e)) es"
    by (simp add: contribution_def list_all_iff)
  then have "(\<Sum>e\<leftarrow>es. contribution rates e VND) =
             (\<Sum>e\<leftarrow>es. convertToVND rates (amount e) (currency e))"
    by (rule arg_cong)
  then show ?thesis
    by (simp only: totalSum_categorySums)
qed

text \<open>
  Claim C10. The specification bounds the distance between the VND property of the
  grand total and the once-rounded sum of the unrounded conversions by half the number of
  expenses. With the rates 1, 2 and 25000 and the single expense of 50000 VND, the first
  is 100000 and the second 50000.
\<close>

theorem VND_total_beyond_rounding:
  "let rates = object (Finite 1) (Finite 2) (Finite 25000);
       es = [\<lparr>id' = 0, amount = Finite 50000, currency = VND, category = ''Other'',
              description = []\<rparr>]
   in totalSum (categorySums rates es) VND = Finite 100000 \<and>
      Math_round (\<Sum>e\<leftarrow>es. convertToEUR rates (amount e) (currency e) * rates VND) =
        Finite 50000 \<and>
      length es = 1"
  by (simp add: totalSum_def addCategorySum_def categorySums_def addExpense_def
      convertToVND_def convertToEUR_def number_ops)

section \<open>Submissions\<close>


lemma handleSubmit_accepted:
  "\<not> isNaN (parseFloat (amount' st)) \<Longrightarrow>
     handleSubmit now st =
       st\<lparr>expenses := expenses st @
              [\<lparr>id' = now, amount = parseFloat (amount' st), currency = currency' st,
                category = category' st, description = description' st\<rparr>],
          amount' := [], description' := [],
          toasts := toasts st @ [Toast_success ''Expense added successfully!'']\<rparr>"
  by (auto simp add: handleSubmit_def parseFloat_empty)




text \<open>An amount of \<open>-5\<close> is submitted and stored.\<close>

theorem negative_amount_counterexample:
  "expenses (run initialState [SetAmount ''-5'', Submit 0]) =
     [\<lparr>id' = 0, amount = Finite (- 5), currency = EUR, category = ''Eating in the restaurant'',
       description = []\<rparr>]"
  by (simp add: run_def handleSubmit_def initialState_def categories_def parse_defs)

lemma step_amounts:
  "list_all (\<lambda>e. \<not> isNaN (amount e)) (expenses st) \<Longrightarrow>
     list_all (\<lambda>e. \<not> isNaN (amount e)) (expenses (step st ev))"
  by (cases ev)
    (auto simp add: handleSubmit_def fetchExchangeRates_start_def fetchExchangeRates_settle_def
      Let_def split: response.splits)

lemma run_amounts:
  "list_all (\<lambda>e. \<not> isNaN (amount e)) (expenses st) \<Longrightarrow>
     list_all (\<lambda>e. \<not> isNaN (amount e)) (expenses (run st evs))"
  unfolding run_def by (induction evs arbitrary: st) (simp_all add: step_amounts)

text \<open>
  Claim C6, amended. Whatever the events, no stored expense has the amount \<^verbatim>\<open>NaN\<close>;
  the sign of an amount is checked nowhere.
\<close>

theorem stored_amounts_not_NaN:
  "list_all (\<lambda>e. \<not> isNaN (amount e)) (expenses (run initialState evs))"
  by (rule run_amounts) (simp add: initialState_def)

lemma step_prefix: "prefix (expenses st) (expenses (step st ev))"
  by (cases ev)
    (auto simp add: handleSubmit_def fetchExchangeRates_start_def fetchExchangeRates_settle_def
      Let_def split: response.splits)

lemma run_prefix: "prefix (expenses st) (expenses (run st evs))"
  unfolding run_def
proof (induction evs arbitrary: st)
  case Nil
  show ?case by simp
next
  case (Cons ev evs)
  show ?case using step_prefix [of st ev] Cons [of "step st ev"] by (auto intro: prefix_order.trans)
qed

text \<open>
  Claim C7. An accepted submission yields the old sequence with the new expense at its
  end, the old expenses in their places; and no sequence of events removes or changes a
  stored expense: the sequence before is a prefix of the sequence after.
\<close>

theorem handleSubmit_appends:
  assumes "amount' st \<noteq> []" and "\<not> isNaN (parseFloat (amount' st))"
  shows "expenses (handleSubmit now st) =
           expenses st @
             [\<lparr>id' = now, amount = parseFloat (amount' st), currency = currency' st,
               category = category' st, description = description' st\<rparr>] \<and>
         take (length (expenses st)) (expenses (handleSubmit now st)) = expenses st \<and>
         prefix (expenses st') (expenses (run st' evs))"
  using assms by (simp add: handleSubmit_accepted run_prefix)

text \<open>
  A store that holds one expense of 10 EUR: a submission of 12.5 puts the second expense
  behind the first, and a change of currency, a submission of 3 and a failed fetch leave
  the first in its place.
\<close>

theorem handleSubmit_appends_witness:
  "expenses (run initialState [SetAmount ''10'', Submit 1]) =
     [\<lparr>id' = 1, amount = Finite 10, currency = EUR,
       category = ''Eating in the restaurant'', description = []\<rparr>] \<and>
   expenses (handleSubmit 7 (run initialState [SetAmount ''10'', Submit 1, SetAmount ''12.5''])) =
     [\<lparr>id' = 1, amount = Finite 10, currency = EUR,
       category = ''Eating in the restaurant'', description = []\<rparr>,
      \<lparr>id' = 7, amount = Finite (25 / 2), currency = EUR,
       category = ''Eating in the restaurant'', description = []\<rparr>] \<and>
   take 1 (expenses
       (handleSubmit 7 (run initialState [SetAmount ''10'', Submit 1, SetAmount ''12.5'']))) =
     expenses (run initialState [SetAmount ''10'', Submit 1]) \<and>
   prefix (expenses (run initialState [SetAmount ''10'', Submit 1]))
     (expenses
       (run (run initialState [SetAmount ''10'', Submit 1])
         [SetCurrency USD, SetAmount ''3'', Submit 9, FetchStart, FetchSettle NetworkError])) \<and>
   expenses
     (run (run initialState [SetAmount ''10'', Submit 1])
       [SetCurrency USD, SetAmount ''3'', Submit 9, FetchStart, FetchSettle NetworkError]) =
     [\<lparr>id' = 1, amount = Finite 10, currency = EUR,
       category = ''Eating in the restaurant'', description = []\<rparr>,
      \<lparr>id' = 9, amount = Finite 3, currency = USD,
       category = ''Eating in the restaurant'', description = []\<rparr>]"
  using handleSubmit_appends
    [of "run initialState [SetAmount ''10'', Submit 1, SetAmount ''12.5'']" 7
      "run initialState [SetAmount ''10'', Submit 1]"
      "[SetCurrency USD, SetAmount ''3'', Submit 9, FetchStart, FetchSettle NetworkError]"]
  by (simp add: run_def handleSubmit_def fetchExchangeRates_start_def
      fetchExchangeRates_settle_def initialState_def categories_def parse_defs)

section \<open>Fetching the rates\<close>

lemma run_rates: "exchangeRates (run st evs) = lastFetched (exchangeRates st) evs"
  unfolding run_def
proof (induction evs arbitrary: st)
  case Nil
  show ?case by simp
next
  case (Cons ev evs)
  show ?case
  proof (cases ev)
    case (FetchSettle r)
    then show ?thesis
      using Cons by (cases r) (simp_all add: fetchExchangeRates_settle_def)
  qed (simp_all add: Cons handleSubmit_def fetchExchangeRates_start_def Let_def)
qed

lemma lastFetched_failure:
  "r = NetworkError \<or> r = ParseError \<or> r = NoRates \<Longrightarrow>
     lastFetched t (evs @ [FetchSettle r]) = lastFetched t evs"
  by (induction t evs rule: lastFetched.induct) auto

text \<open>
  Claim C8. A fetch that fails leaves the rate table as it was, and with it every
  conversion; after any events followed by a failed fetch the table is that of the last
  fetch that succeeded, or the initial one of 1, 1 and 1.
\<close>

theorem failed_fetch_keeps_rates:
  assumes "r = NetworkError \<or> r = ParseError \<or> r = NoRates"
  shows "exchangeRates (fetchExchangeRates_settle r st) = exchangeRates st \<and>
         convertToVND (exchangeRates (fetchExchangeRates_settle r st)) a c =
           convertToVND (exchangeRates st) a c \<and>
         exchangeRates (run initialState (evs @ [FetchSettle r])) =
           lastFetched (object (Finite 1) (Finite 1) (Finite 1)) evs"
proof -
  have 1: "exchangeRates (fetchExchangeRates_settle r st) = exchangeRates st"
    using assms by (auto simp add: fetchExchangeRates_settle_def)
  have 2: "exchangeRates (run initialState (evs @ [FetchSettle r])) =
           lastFetched (object (Finite 1) (Finite 1) (Finite 1)) evs"
    using assms by (simp add: run_rates lastFetched_failure initialState_def)
  show ?thesis using 1 2 by simp
qed

theorem failed_fetch_keeps_rates_witness:
  "exchangeRates (run initialState [FetchStart, FetchSettle (Rates (Finite 2) (Finite 25000)),
      FetchStart, FetchSettle NetworkError]) = object (Finite 1) (Finite 2) (Finite 25000) \<and>
   exchangeRates (run initialState [FetchStart, FetchSettle ParseError]) =
     object (Finite 1) (Finite 1) (Finite 1)"
  using failed_fetch_keeps_rates [of NetworkError initialState "Finite 1" EUR
      "[FetchStart, FetchSettle (Rates (Finite 2) (Finite 25000)), FetchStart]"]
    failed_fetch_keeps_rates [of ParseError initialState "Finite 1" EUR "[FetchStart]"]
  by simp

end
